theory Spec2Isabelle
  imports Main "HOL-Library.Sublist"
begin

section \<open>Values, dictionaries and exceptions\<close>

text \<open>
  The authentication core of the intranet API: \<^verbatim>\<open>app/core/auth.py\<close>,
  \<^verbatim>\<open>app/core/security.py\<close>, \<^verbatim>\<open>app/core/config.py\<close> and the handlers of
  \<^verbatim>\<open>app/routers/auth.py\<close>. Python dictionaries with literal keys are association
  lists; \<open>d.get(k)\<close> is \<open>dict_get d k\<close>. A value held by a token payload or by a
  user document is a JSON scalar.
\<close>

datatype jvalue = JNull | JBool bool | JInt int | JStr string

type_synonym 'v dict = "(string \<times> 'v) list"

definition dict_get :: "'v dict \<Rightarrow> string \<Rightarrow> 'v option" where
  "dict_get d k = map_of d k"

text \<open>\<open>d.get(k, default)\<close>.\<close>

definition dict_get_or :: "'v dict \<Rightarrow> string \<Rightarrow> 'v \<Rightarrow> 'v" where
  "dict_get_or d k dflt = (case map_of d k of None \<Rightarrow> dflt | Some v \<Rightarrow> v)"

text \<open>Python truthiness of the result of \<open>d.get(k)\<close>: \<open>not v\<close> is \<open>\<not> truthy v\<close>.\<close>

fun truthy :: "jvalue option \<Rightarrow> bool" where
  "truthy None = False"
| "truthy (Some JNull) = False"
| "truthy (Some (JBool b)) = b"
| "truthy (Some (JInt n)) = (n \<noteq> 0)"
| "truthy (Some (JStr s)) = (s \<noteq> [])"

text \<open>
  Every exception the modelled code can raise is a value. \<open>HTTPException\<close> carries
  the status code, the detail and the extra headers it was built with.
\<close>

datatype error =
    ValueError string
  | TypeError
  | OverflowError
  | JWSError
  | JWTError string
  | UnknownHashError
  | ValidationError
  | HTTPException int string "(string \<times> string) list"

section \<open>Configuration (app/core/config.py)\<close>

record settings =
  SECRET_KEY :: string
  ALGORITHM :: string
  ACCESS_TOKEN_EXPIRE_MINUTES :: int
  MAJOR_TOKEN_EXPIRE_HOURS :: int

definition default_settings :: settings where
  "default_settings =
     \<lparr> SECRET_KEY = ''change-me'', ALGORITHM = ''HS256'',
       ACCESS_TOKEN_EXPIRE_MINUTES = 60, MAJOR_TOKEN_EXPIRE_HOURS = 7 \<rparr>"

section \<open>The clock and datetime arithmetic\<close>

text \<open>
  A reading of \<open>datetime.now(timezone.utc)\<close> is an integer number of microseconds
  since the epoch (the resolution of \<open>datetime\<close>). Every call of \<open>datetime.now\<close> in
  the source is a reading of its own, passed to the model as an argument.
  \<open>timedelta\<close> and \<open>datetime + timedelta\<close> raise \<open>OverflowError\<close> outside their
  ranges (at most 999999999 days; years 1 to 9999).
\<close>

definition DATETIME_MIN :: int where
  "DATETIME_MIN = - 62135596800000000"

definition DATETIME_MAX :: int where
  "DATETIME_MAX = 253402300799999999"

definition timedelta :: "int \<Rightarrow> error + int" where
  "timedelta us =
     (if \<bar>us div 86400000000\<bar> \<le> 999999999 then Inr us else Inl OverflowError)"

definition datetime_add :: "int \<Rightarrow> int \<Rightarrow> error + int" where
  "datetime_add t d =
     (if DATETIME_MIN \<le> t + d \<and> t + d \<le> DATETIME_MAX then Inr (t + d)
      else Inl OverflowError)"

text \<open>
  \<open>int(dt.timestamp())\<close>. \<open>timestamp()\<close> divides the microseconds since the
  epoch by \<open>10**6\<close> into a double: the quotient rounded to the nearest multiple of
  \<open>2 ^ (e - 52)\<close>, ties to even, where \<open>2 ^ e\<close> is the power of two at or below
  it; \<open>int()\<close> then truncates towards zero. Below one second the double is below
  one. (A datetime is less than \<open>2 ^ 38\<close> seconds from the epoch, so \<open>e\<close> is
  far below 52.)
\<close>

definition round_half_even :: "int \<Rightarrow> int \<Rightarrow> int" where
  "round_half_even a b =
     (let q = a div b; r = a mod b
      in if 2 * r < b then q
         else if b < 2 * r then q + 1
         else if even q then q else q + 1)"

fun floor_log2 :: "nat \<Rightarrow> nat" where
  "floor_log2 k = (if k < 2 then 0 else Suc (floor_log2 (k div 2)))"

definition double_seconds :: "int \<Rightarrow> int" where
  "double_seconds n =
     (if n < 1000000 then 0
      else
        (let e = floor_log2 (nat (n div 1000000)); q = 2 ^ (52 - e)
         in round_half_even (n * q) 1000000 div q))"

definition int_timestamp :: "int \<Rightarrow> int" where
  "int_timestamp t = (if 0 \<le> t then double_seconds t else - double_seconds (- t))"

text \<open>\<open>int((now + timedelta(...)).timestamp())\<close>, with the delta in microseconds.\<close>

definition expiry_after :: "int \<Rightarrow> int \<Rightarrow> error + int" where
  "expiry_after now us =
     (case timedelta us of
        Inl e \<Rightarrow> Inl e
      | Inr d \<Rightarrow> (case datetime_add now d of
                   Inl e \<Rightarrow> Inl e
                 | Inr t \<Rightarrow> Inr (int_timestamp t)))"

text \<open>\<open>_exp\<close> of app/core/auth.py (an identifier cannot start with an underscore); \<open>now\<close> is its reading of the clock.\<close>

definition exp_helper :: "int \<Rightarrow> int option \<Rightarrow> int option \<Rightarrow> error + int" where
  "exp_helper now minutes hours =
     (case minutes of
        Some m \<Rightarrow> expiry_after now (m * 60000000)
      | None \<Rightarrow>
          (case hours of
             Some h \<Rightarrow> expiry_after now (h * 3600000000)
           | None \<Rightarrow> expiry_after now (15 * 60000000)))"

section \<open>The token library (python-jose)\<close>

text \<open>
  \<open>jose.jwt\<close> is a third-party library. A compact token string decodes to three
  segments: the header's \<open>alg\<close>, the payload (a JSON object) and the signature. The
  serialisation (base64url of JSON) and the keyed signature function are parameters
  of the model, collected with the other external collaborators in the record
  \<open>externals\<close>; what the library does with them is written out below.
  \<open>jws_mac ext alg key (alg, payload)\<close> is the signature the library computes for a
  header and payload under a symmetric algorithm, \<open>None\<close> when it cannot sign with
  this algorithm and key.
\<close>

record jws =
  jws_alg :: string
  jws_payload :: "jvalue dict"
  jws_sig :: string

datatype oid = Oid string

record user_doc =
  doc_id :: oid
  doc_fields :: "jvalue dict"

record externals =
  jws_serialize :: "jws \<Rightarrow> string"
  jws_parse :: "string \<Rightarrow> jws option"
  jws_mac :: "string \<Rightarrow> string \<Rightarrow> string \<times> jvalue dict \<Rightarrow> string option"
  handler_verify :: "string \<Rightarrow> string \<Rightarrow> string \<Rightarrow> error + bool"
  int_of_str :: "string \<Rightarrow> int option"
  ObjectId :: "string \<Rightarrow> oid option"
  usuario_read :: "jvalue dict \<Rightarrow> jvalue dict option"

text \<open>
  Python's \<open>int()\<close> on a JSON scalar. On a string it parses a literal
  (\<open>int_of_str\<close>, a parameter: \<open>None\<close> when it raises \<open>ValueError\<close>); on \<open>None\<close>
  it raises \<open>TypeError\<close>.
\<close>

definition py_int :: "externals \<Rightarrow> jvalue \<Rightarrow> error + int" where
  "py_int ext v =
     (case v of
        JInt n \<Rightarrow> Inr n
      | JBool b \<Rightarrow> Inr (if b then 1 else 0)
      | JStr s \<Rightarrow>
          (case int_of_str ext s of
             None \<Rightarrow> Inl (ValueError ''invalid literal for int() with base 10'')
           | Some n \<Rightarrow> Inr n)
      | JNull \<Rightarrow> Inl TypeError)"

text \<open>
  \<open>jwt.encode(claims, key, algorithm)\<close>: signs and serialises; \<open>JWSError\<close> when the
  algorithm or key is not usable.
\<close>

definition jwt_encode :: "externals \<Rightarrow> jvalue dict \<Rightarrow> string \<Rightarrow> string \<Rightarrow> error + string" where
  "jwt_encode ext claims key algorithm =
     (case jws_mac ext algorithm key (algorithm, claims) of
        None \<Rightarrow> Inl JWSError
      | Some sg \<Rightarrow>
          Inr (jws_serialize ext
                 \<lparr> jws_alg = algorithm, jws_payload = claims, jws_sig = sg \<rparr>))"

text \<open>
  The library's validation of the claims this program writes. \<open>now\<close> is the
  library's clock in whole seconds. The expiry test is the library's
  \<open>if exp < now: raise ExpiredSignatureError\<close>, on \<open>exp = int(claims["exp"])\<close>,
  where a \<open>ValueError\<close> of the conversion becomes a \<open>JWTClaimsError\<close> and a
  \<open>TypeError\<close> is not caught; a \<open>sub\<close> claim must be a string. The optional
  registered claims \<open>nbf\<close>, \<open>aud\<close>, \<open>iss\<close>, \<open>jti\<close> and \<open>at_hash\<close>, which no
  function of this program writes, are not modelled. \<open>ExpiredSignatureError\<close> and
  \<open>JWTClaimsError\<close> are subclasses of \<open>JWTError\<close> and are that constructor here.
\<close>

definition validate_exp :: "externals \<Rightarrow> jvalue dict \<Rightarrow> int \<Rightarrow> error + unit" where
  "validate_exp ext claims now =
     (case dict_get claims ''exp'' of
        None \<Rightarrow> Inr ()
      | Some v \<Rightarrow>
          (case py_int ext v of
             Inl (ValueError m) \<Rightarrow>
               Inl (JWTError ''Expiration Time claim (exp) must be an integer.'')
           | Inl e \<Rightarrow> Inl e
           | Inr e \<Rightarrow>
               (if e < now then Inl (JWTError ''Signature has expired.'') else Inr ())))"

definition validate_sub :: "jvalue dict \<Rightarrow> error + unit" where
  "validate_sub claims =
     (case dict_get claims ''sub'' of
        None \<Rightarrow> Inr ()
      | Some (JStr s) \<Rightarrow> Inr ()
      | Some _ \<Rightarrow> Inl (JWTError ''Subject must be a string.''))"

text \<open>
  \<open>jwt.decode(token, key, algorithms=[...])\<close> at the clock reading \<open>now_us\<close>
  (microseconds; the library drops the fraction of the second).
\<close>

definition jwt_decode ::
  "externals \<Rightarrow> string \<Rightarrow> string \<Rightarrow> string list \<Rightarrow> int \<Rightarrow> error + jvalue dict" where
  "jwt_decode ext token key algorithms now_us =
     (case jws_parse ext token of
        None \<Rightarrow> Inl (JWTError ''Not enough segments'')
      | Some j \<Rightarrow>
          if jws_alg j \<notin> set algorithms
          then Inl (JWTError ''The specified alg value is not allowed'')
          else if jws_mac ext (jws_alg j) key (jws_alg j, jws_payload j) \<noteq> Some (jws_sig j)
          then Inl (JWTError ''Signature verification failed.'')
          else (case validate_exp ext (jws_payload j) (now_us div 1000000) of
                  Inl e \<Rightarrow> Inl e
                | Inr _ \<Rightarrow> (case validate_sub (jws_payload j) of
                             Inl e \<Rightarrow> Inl e
                           | Inr _ \<Rightarrow> Inr (jws_payload j))))"

section \<open>Tokens (app/core/auth.py)\<close>

text \<open>
  \<open>create_token\<close> reads the clock twice: \<open>t_exp\<close> inside \<open>_exp\<close>, then \<open>t_iat\<close>
  for the \<open>iat\<close> claim. \<open>decode_token\<close> catches \<open>JWTError\<close> only.
\<close>

definition create_token ::
  "externals \<Rightarrow> settings \<Rightarrow> int \<Rightarrow> int \<Rightarrow> string \<Rightarrow> string \<Rightarrow> error + string" where
  "create_token ext st t_exp t_iat sub token_type =
     (if sub = [] then Inl (ValueError ''sub is required'')
      else
        (case (if token_type = ''access''
               then exp_helper t_exp (Some (ACCESS_TOKEN_EXPIRE_MINUTES st)) None
               else if token_type = ''major''
               then exp_helper t_exp None (Some (MAJOR_TOKEN_EXPIRE_HOURS st))
               else Inl (ValueError ''invalid token_type'')) of
           Inl e \<Rightarrow> Inl e
         | Inr e \<Rightarrow>
             jwt_encode ext
               [(''sub'', JStr sub), (''type'', JStr token_type),
                (''exp'', JInt e), (''iat'', JInt (int_timestamp t_iat))]
               (SECRET_KEY st) (ALGORITHM st)))"

definition decode_token :: "externals \<Rightarrow> settings \<Rightarrow> int \<Rightarrow> string \<Rightarrow> error + jvalue dict" where
  "decode_token ext st now_us token =
     (case jwt_decode ext token (SECRET_KEY st) [ALGORITHM st] now_us of
        Inl (JWTError msg) \<Rightarrow> Inl (ValueError msg)
      | Inl e \<Rightarrow> Inl e
      | Inr payload \<Rightarrow> Inr payload)"

text \<open>
  The \<open>exp\<close> or other claim a token string carries, read without verifying it
  (the library's \<open>get_unverified_claims\<close>); used to say which token a statement is
  about.
\<close>

definition token_claim :: "externals \<Rightarrow> string \<Rightarrow> string \<Rightarrow> jvalue option" where
  "token_claim ext token k =
     (case jws_parse ext token of
        None \<Rightarrow> None
      | Some j \<Rightarrow> dict_get (jws_payload j) k)"

section \<open>Passwords (app/core/auth.py, passlib)\<close>

text \<open>
  \<open>pwd_context = CryptContext(schemes=["bcrypt_sha256", "bcrypt"])\<close>.
  \<open>CryptContext.verify\<close> first identifies the scheme of the digest by its prefix
  and raises \<open>UnknownHashError\<close> when no configured scheme recognises it; the
  scheme's own verification (\<open>handler_verify\<close>, a parameter) then compares, and may
  itself raise on a digest it cannot parse.
\<close>

definition bcrypt_idents :: "string list" where
  "bcrypt_idents = [''$2$'', ''$2a$'', ''$2x$'', ''$2y$'', ''$2b$'']"

definition identify :: "string \<Rightarrow> string option" where
  "identify hash =
     (if prefix ''$bcrypt-sha256$'' hash then Some ''bcrypt_sha256''
      else if list_ex (\<lambda>i. prefix i hash) bcrypt_idents then Some ''bcrypt''
      else None)"

definition pwd_context_verify :: "externals \<Rightarrow> string \<Rightarrow> string \<Rightarrow> error + bool" where
  "pwd_context_verify ext secret hash =
     (case identify hash of
        None \<Rightarrow> Inl UnknownHashError
      | Some scheme \<Rightarrow> handler_verify ext scheme secret hash)"

text \<open>
  \<open>verify_password\<close>; the digest is whatever the caller read from the user
  document, so \<open>not hashed_password\<close> is Python truthiness. The wrapper of the
  same name in app/core/security.py only forwards to it.
\<close>

definition verify_password :: "externals \<Rightarrow> string \<Rightarrow> jvalue \<Rightarrow> error + bool" where
  "verify_password ext plain_password hashed_password =
     (if \<not> truthy (Some hashed_password) then Inr False
      else (case hashed_password of
              JStr h \<Rightarrow> pwd_context_verify ext plain_password h
            | _ \<Rightarrow> Inl TypeError))"

section \<open>The access guard (app/core/security.py)\<close>

text \<open>Python's \<open>str()\<close> on a JSON scalar.\<close>

fun nat_str :: "nat \<Rightarrow> string" where
  "nat_str n =
     (if n < 10 then [char_of (48 + n)]
      else nat_str (n div 10) @ [char_of (48 + n mod 10)])"

fun py_str :: "jvalue \<Rightarrow> string" where
  "py_str JNull = ''None''"
| "py_str (JBool b) = (if b then ''True'' else ''False'')"
| "py_str (JInt n) = (if n < 0 then ''-'' @ nat_str (nat (- n)) else nat_str (nat n))"
| "py_str (JStr s) = s"

definition TOKEN_INVALIDO_OU_EXPIRADO :: string where
  "TOKEN_INVALIDO_OU_EXPIRADO = ''Token inv'' @ [CHR 0xC3, CHR 0xA1] @ ''lido ou expirado''"

definition unauthorized_bearer :: error where
  "unauthorized_bearer =
     HTTPException 401 TOKEN_INVALIDO_OU_EXPIRADO [(''WWW-Authenticate'', ''Bearer'')]"

definition get_current_user_id :: "externals \<Rightarrow> settings \<Rightarrow> int \<Rightarrow> string \<Rightarrow> error + string" where
  "get_current_user_id ext st now_us token =
     (case decode_token ext st now_us token of
        Inl e \<Rightarrow> Inl unauthorized_bearer
      | Inr payload \<Rightarrow>
          if dict_get payload ''type'' \<noteq> Some (JStr ''access'') then Inl unauthorized_bearer
          else (case dict_get payload ''sub'' of
                  None \<Rightarrow> Inl unauthorized_bearer
                | Some sub \<Rightarrow>
                    if \<not> truthy (Some sub) then Inl unauthorized_bearer
                    else Inr (py_str sub)))"

section \<open>The handlers (app/routers/auth.py)\<close>

text \<open>
  The document store is a parameter: \<open>find_one\<close> on the collection
  \<open>usuarios\<close> by \<open>email\<close> and by \<open>_id\<close>. A stored document always has an \<open>_id\<close>
  (an \<open>ObjectId\<close>, whose \<open>str()\<close> is its 24 hexadecimal digits), so it is never an
  empty dictionary. \<open>ObjectId ext s\<close> is \<open>bson.ObjectId(s)\<close>, \<open>None\<close> when it raises;
  \<open>usuario_read ext d\<close> is the validation \<open>UsuarioRead(**d)\<close>, \<open>None\<close> when it raises.
\<close>

record db =
  usuarios_by_email :: "string \<Rightarrow> user_doc option"
  usuarios_by_id :: "oid \<Rightarrow> user_doc option"

fun oid_str :: "oid \<Rightarrow> string" where
  "oid_str (Oid h) = h"

record cookie =
  cookie_key :: string
  cookie_value :: string
  cookie_httponly :: bool
  cookie_max_age :: int
  cookie_samesite :: string
  cookie_secure :: bool
  cookie_path :: string

record token_out =
  access_token :: string
  token_type :: string
  usuario :: "jvalue dict"

text \<open>What a handler hands back: the JSON body and the cookies it set on the response.\<close>

record response =
  body :: token_out
  set_cookies :: "cookie list"

definition COOKIE_NAME :: string where
  "COOKIE_NAME = ''major_token''"

definition COOKIE_MAX_AGE :: "settings \<Rightarrow> int" where
  "COOKIE_MAX_AGE st = MAJOR_TOKEN_EXPIRE_HOURS st * 60 * 60"

definition set_major_cookie :: "settings \<Rightarrow> cookie list \<Rightarrow> string \<Rightarrow> cookie list" where
  "set_major_cookie st resp token =
     resp @ [\<lparr> cookie_key = COOKIE_NAME, cookie_value = token, cookie_httponly = True,
               cookie_max_age = COOKIE_MAX_AGE st, cookie_samesite = ''none'',
               cookie_secure = True, cookie_path = ''/'' \<rparr>]"

definition build_safe_user :: "user_doc \<Rightarrow> jvalue dict" where
  "build_safe_user user =
     (''_id'', JStr (oid_str (doc_id user)))
       # filter (\<lambda>(k, v). k \<notin> {''senha'', ''senha_hash''}) (doc_fields user)"

definition CREDENCIAIS_INVALIDAS :: string where
  "CREDENCIAIS_INVALIDAS = ''Credenciais inv'' @ [CHR 0xC3, CHR 0xA1] @ ''lidas''"

definition MAJOR_TOKEN_AUSENTE :: string where
  "MAJOR_TOKEN_AUSENTE = ''Major token ausente''"

definition MAJOR_TOKEN_INVALIDO :: string where
  "MAJOR_TOKEN_INVALIDO = ''Major token inv'' @ [CHR 0xC3, CHR 0xA1] @ ''lido ou expirado''"

definition ID_INVALIDO_NO_TOKEN :: string where
  "ID_INVALIDO_NO_TOKEN = ''ID inv'' @ [CHR 0xC3, CHR 0xA1] @ ''lido no token''"

definition USUARIO_NAO_ENCONTRADO :: string where
  "USUARIO_NAO_ENCONTRADO =
     ''Usu'' @ [CHR 0xC3, CHR 0xA1] @ ''rio n'' @ [CHR 0xC3, CHR 0xA3] @ ''o encontrado''"

definition TOKEN_AUSENTE :: string where
  "TOKEN_AUSENTE = ''Token ausente''"

text \<open>
  \<open>login\<close>. The four clock readings are those of its two calls of
  \<open>create_token\<close>, in order.
\<close>

definition login ::
  "externals \<Rightarrow> db \<Rightarrow> settings \<Rightarrow> int \<times> int \<times> int \<times> int \<Rightarrow> string \<Rightarrow> string
     \<Rightarrow> error + response" where
  "login ext d st clock email senha =
     (case clock of (t1, t2, t3, t4) \<Rightarrow>
      (case usuarios_by_email d email of
         None \<Rightarrow> Inl (HTTPException 401 CREDENCIAIS_INVALIDAS [])
       | Some user \<Rightarrow>
           (case verify_password ext senha
                   (dict_get_or (doc_fields user) ''senha_hash'' (JStr [])) of
              Inl e \<Rightarrow> Inl e
            | Inr ok \<Rightarrow>
                if \<not> ok then Inl (HTTPException 401 CREDENCIAIS_INVALIDAS [])
                else
                  (case create_token ext st t1 t2 (oid_str (doc_id user)) ''access'' of
                     Inl e \<Rightarrow> Inl e
                   | Inr access \<Rightarrow>
                       (case create_token ext st t3 t4 (oid_str (doc_id user)) ''major'' of
                          Inl e \<Rightarrow> Inl e
                        | Inr major \<Rightarrow>
                            (case usuario_read ext (build_safe_user user) of
                               None \<Rightarrow> Inl ValidationError
                             | Some u \<Rightarrow>
                                 Inr \<lparr> body = \<lparr> access_token = access,
                                                 token_type = ''bearer'', usuario = u \<rparr>,
                                       set_cookies = set_major_cookie st [] major \<rparr>))))))"

text \<open>
  \<open>refresh\<close>; \<open>cookies\<close> is \<open>request.cookies\<close>. The clock readings are that of
  \<open>decode_token\<close> and the two of \<open>create_token\<close>. The handler has no response
  object to set a cookie on.
\<close>

definition refresh ::
  "externals \<Rightarrow> db \<Rightarrow> settings \<Rightarrow> int \<times> int \<times> int \<Rightarrow> string dict \<Rightarrow> error + response" where
  "refresh ext d st clock cookies =
     (case clock of (t0, t1, t2) \<Rightarrow>
      (case dict_get cookies COOKIE_NAME of
         None \<Rightarrow> Inl (HTTPException 401 MAJOR_TOKEN_AUSENTE [])
       | Some major \<Rightarrow>
           if major = [] then Inl (HTTPException 401 MAJOR_TOKEN_AUSENTE [])
           else
             (case decode_token ext st t0 major of
                Inl e \<Rightarrow> Inl (HTTPException 401 MAJOR_TOKEN_INVALIDO [])
              | Inr payload \<Rightarrow>
                  if dict_get payload ''type'' \<noteq> Some (JStr ''major'')
                  then Inl (HTTPException 401 MAJOR_TOKEN_INVALIDO [])
                  else if \<not> truthy (dict_get payload ''sub'')
                  then Inl (HTTPException 401 MAJOR_TOKEN_INVALIDO [])
                  else
                    (case dict_get payload ''sub'' of
                       Some (JStr user_id) \<Rightarrow>
                         (case ObjectId ext user_id of
                            None \<Rightarrow> Inl (HTTPException 401 ID_INVALIDO_NO_TOKEN [])
                          | Some oid \<Rightarrow>
                              (case usuarios_by_id d oid of
                                 None \<Rightarrow> Inl (HTTPException 401 USUARIO_NAO_ENCONTRADO [])
                               | Some user \<Rightarrow>
                                   (case create_token ext st t1 t2 user_id ''access'' of
                                      Inl e \<Rightarrow> Inl e
                                    | Inr new_access \<Rightarrow>
                                        (case usuario_read ext (build_safe_user user) of
                                           None \<Rightarrow> Inl ValidationError
                                         | Some u \<Rightarrow>
                                             Inr \<lparr> body = \<lparr> access_token = new_access,
                                                             token_type = ''bearer'',
                                                             usuario = u \<rparr>,
                                                   set_cookies = [] \<rparr>))))
                     | _ \<Rightarrow> Inl (HTTPException 401 ID_INVALIDO_NO_TOKEN [])))))"

text \<open>\<open>authorization.replace("Bearer ", "")\<close>: every occurrence is removed.\<close>

fun replace_bearer :: "string \<Rightarrow> string" where
  "replace_bearer [] = []"
| "replace_bearer (c # cs) =
     (if prefix ''Bearer '' (c # cs) then replace_bearer (drop 7 (c # cs))
      else c # replace_bearer cs)"

text \<open>\<open>user.get(k)\<close> on a document: Python's \<open>None\<close> is JSON \<open>null\<close>.\<close>

definition user_get :: "user_doc \<Rightarrow> string \<Rightarrow> jvalue" where
  "user_get user k = dict_get_or (doc_fields user) k JNull"

text \<open>\<open>me\<close>; \<open>authorization\<close> is the request header, \<open>None\<close> when absent.\<close>

definition me ::
  "externals \<Rightarrow> db \<Rightarrow> settings \<Rightarrow> int \<Rightarrow> string option \<Rightarrow> error + jvalue dict" where
  "me ext d st now_us authorization =
     (case authorization of
        None \<Rightarrow> Inl (HTTPException 401 TOKEN_AUSENTE [])
      | Some a \<Rightarrow>
          if a = [] then Inl (HTTPException 401 TOKEN_AUSENTE [])
          else
            (case decode_token ext st now_us (replace_bearer a) of
               Inl e \<Rightarrow> Inl (HTTPException 401 TOKEN_INVALIDO_OU_EXPIRADO [])
             | Inr payload \<Rightarrow>
                 if \<not> truthy (dict_get payload ''sub'')
                 then Inl (HTTPException 401 TOKEN_INVALIDO_OU_EXPIRADO [])
                 else
                   (case dict_get payload ''sub'' of
                      Some (JStr user_id) \<Rightarrow>
                        (case ObjectId ext user_id of
                           None \<Rightarrow> Inl (HTTPException 401 ID_INVALIDO_NO_TOKEN [])
                         | Some oid \<Rightarrow>
                             (case usuarios_by_id d oid of
                                None \<Rightarrow> Inl (HTTPException 404 USUARIO_NAO_ENCONTRADO [])
                              | Some user \<Rightarrow>
                                  Inr [(''id'', JStr (oid_str (doc_id user))),
                                       (''display_name'', user_get user ''nome''),
                                       (''departamento'', user_get user ''departamento''),
                                       (''avatar_url'', user_get user ''avatar_url''),
                                       (''descricao_html'',
                                          dict_get_or (doc_fields user) ''descricao_html''
                                            (JStr []))]))
                    | _ \<Rightarrow> Inl (HTTPException 401 ID_INVALIDO_NO_TOKEN []))))"

section \<open>Notions used to state the properties\<close>

text \<open>The time-to-live bound to a token kind, in seconds.\<close>

definition ttl_seconds :: "settings \<Rightarrow> string \<Rightarrow> int" where
  "ttl_seconds st kind =
     (if kind = ''access'' then ACCESS_TOKEN_EXPIRE_MINUTES st * 60
      else MAJOR_TOKEN_EXPIRE_HOURS st * 3600)"

text \<open>A \<open>sub\<close> claim resolves when it is the identifier of a stored user.\<close>

definition resolves :: "externals \<Rightarrow> db \<Rightarrow> jvalue option \<Rightarrow> bool" where
  "resolves ext d sub =
     (case sub of
        Some (JStr s) \<Rightarrow>
          (case ObjectId ext s of
             None \<Rightarrow> False
           | Some oid \<Rightarrow> usuarios_by_id d oid \<noteq> None)
      | _ \<Rightarrow> False)"

text \<open>
  The client side of a session: a cookie jar takes the cookies a response sets
  (a cookie replaces the one of the same name), and \<open>refresh_session\<close> calls
  \<open>refresh\<close> once for each triple of clock readings, sending the jar and storing
  what each successful response sets.
\<close>

definition store_cookies :: "string dict \<Rightarrow> cookie list \<Rightarrow> string dict" where
  "store_cookies jar cs =
     fold (\<lambda>c j. (cookie_key c, cookie_value c) # filter (\<lambda>(k, v). k \<noteq> cookie_key c) j) cs jar"

fun refresh_session ::
  "externals \<Rightarrow> db \<Rightarrow> settings \<Rightarrow> (int \<times> int \<times> int) list \<Rightarrow> string dict \<Rightarrow> string dict" where
  "refresh_session ext d st [] jar = jar"
| "refresh_session ext d st (clock # clocks) jar =
     (case refresh ext d st clock jar of
        Inl e \<Rightarrow> refresh_session ext d st clocks jar
      | Inr r \<Rightarrow> refresh_session ext d st clocks (store_cookies jar (set_cookies r)))"

section \<open>A concrete instance of the collaborators\<close>

text \<open>
  A small instance of the external collaborators, on which the hypotheses of the
  theorems below are met and the functions can be run: a signature function that
  knows only \<open>HS256\<close>, a wire format for three tokens, a password scheme, an
  identifier parser and a store with two users.
\<close>

definition demo_sub :: string where
  "demo_sub = ''65f0c0ffee65f0c0ffee0001''"

definition demo_mac :: "string \<Rightarrow> string \<Rightarrow> string \<times> jvalue dict \<Rightarrow> string option" where
  "demo_mac alg key inp =
     (if alg = ''HS256'' then Some (key @ ''/'' @ fst inp @ ''/'' @ concat (map fst (snd inp)))
      else None)"

definition demo_access_jws :: jws where
  "demo_access_jws =
     \<lparr> jws_alg = ''HS256'',
       jws_payload = [(''sub'', JStr demo_sub), (''type'', JStr ''access''),
                      (''exp'', JInt 1762185600), (''iat'', JInt 1762182001)],
       jws_sig = ''change-me/HS256/subtypeexpiat'' \<rparr>"

definition demo_major_jws :: jws where
  "demo_major_jws =
     \<lparr> jws_alg = ''HS256'',
       jws_payload = [(''sub'', JStr demo_sub), (''type'', JStr ''major''),
                      (''exp'', JInt 1762207200), (''iat'', JInt 1762182000)],
       jws_sig = ''change-me/HS256/subtypeexpiat'' \<rparr>"

definition demo_major_bad_id_jws :: jws where
  "demo_major_bad_id_jws =
     \<lparr> jws_alg = ''HS256'',
       jws_payload = [(''sub'', JStr ''abc''), (''type'', JStr ''major''),
                      (''exp'', JInt 1762207200), (''iat'', JInt 1762182000)],
       jws_sig = ''change-me/HS256/subtypeexpiat'' \<rparr>"

definition demo_serialize :: "jws \<Rightarrow> string" where
  "demo_serialize j =
     (if j = demo_access_jws then ''h.access1.s''
      else if j = demo_major_jws then ''h.major1.s''
      else if j = demo_major_bad_id_jws then ''h.major2.s''
      else ''?'')"

definition demo_parse :: "string \<Rightarrow> jws option" where
  "demo_parse s =
     (if s = ''h.access1.s'' then Some demo_access_jws
      else if s = ''h.major1.s'' then Some demo_major_jws
      else if s = ''h.major2.s'' then Some demo_major_bad_id_jws
      else None)"

text \<open>
  The password scheme of the instance knows one bcrypt digest, that of the password
  \<open>U*U\<close>, and takes any other digest for malformed.
\<close>

definition demo_digest :: string where
  "demo_digest = ''$2a$05$CCCCCCCCCCCCCCCCCCCCC.E5YPO9kmyuRGyh0XouQYb4YMJKvyOeW''"

definition demo_handler_verify :: "string \<Rightarrow> string \<Rightarrow> string \<Rightarrow> error + bool" where
  "demo_handler_verify scheme secret hash =
     (if hash = demo_digest then Inr (secret = ''U*U'')
      else Inl (ValueError ''malformed bcrypt hash''))"

text \<open>\<open>int()\<close> of the instance, on ASCII literals: blanks, a sign, digits and underscores.\<close>

definition demo_is_space :: "char \<Rightarrow> bool" where
  "demo_is_space c =
     (c \<in> set [CHR '' '', CHR 0x09, CHR 0x0A, CHR 0x0B, CHR 0x0C, CHR 0x0D,
                CHR 0x1C, CHR 0x1D, CHR 0x1E, CHR 0x1F])"

definition demo_is_digit :: "char \<Rightarrow> bool" where
  "demo_is_digit c = (c \<in> set ''0123456789'')"

fun demo_no_double_underscore :: "string \<Rightarrow> bool" where
  "demo_no_double_underscore (a # b # cs) =
     (\<not> (a = CHR ''_'' \<and> b = CHR ''_'') \<and> demo_no_double_underscore (b # cs))"
| "demo_no_double_underscore cs = True"

definition demo_decimal :: "string \<Rightarrow> int option" where
  "demo_decimal ds =
     (if ds \<noteq> [] \<and> list_all (\<lambda>c. demo_is_digit c \<or> c = CHR ''_'') ds
         \<and> demo_is_digit (hd ds) \<and> demo_is_digit (last ds)
         \<and> demo_no_double_underscore ds
      then Some (foldl (\<lambda>a c. 10 * a + (int (of_char c) - 48)) 0 (filter demo_is_digit ds))
      else None)"

definition demo_int_of_str :: "string \<Rightarrow> int option" where
  "demo_int_of_str s =
     (case rev (dropWhile demo_is_space (rev (dropWhile demo_is_space s))) of
        [] \<Rightarrow> None
      | c # ds \<Rightarrow>
          if c = CHR ''-'' then map_option uminus (demo_decimal ds)
          else if c = CHR ''+'' then demo_decimal ds
          else demo_decimal (c # ds))"

definition is_hex :: "char \<Rightarrow> bool" where
  "is_hex c = (c \<in> set ''0123456789abcdef'')"

definition demo_ObjectId :: "string \<Rightarrow> oid option" where
  "demo_ObjectId s = (if length s = 24 \<and> list_all is_hex s then Some (Oid s) else None)"

definition demo_ext :: externals where
  "demo_ext =
     \<lparr> jws_serialize = demo_serialize, jws_parse = demo_parse, jws_mac = demo_mac,
       handler_verify = demo_handler_verify, int_of_str = demo_int_of_str,
       ObjectId = demo_ObjectId, usuario_read = Some \<rparr>"

definition demo_user :: user_doc where
  "demo_user =
     \<lparr> doc_id = Oid demo_sub,
       doc_fields = [(''nome'', JStr ''Ana''), (''sobrenome'', JStr ''Silva''),
                     (''email'', JStr ''ana@example.com''),
                     (''senha_hash'', JStr demo_digest),
                     (''departamento'', JStr ''fiscal'')] \<rparr>"

text \<open>A second user, whose stored digest is not one of a configured scheme.\<close>

definition demo_legacy_user :: user_doc where
  "demo_legacy_user =
     \<lparr> doc_id = Oid ''65f0c0ffee65f0c0ffee0002'',
       doc_fields = [(''nome'', JStr ''Rui''), (''sobrenome'', JStr ''Costa''),
                     (''email'', JStr ''rui@example.com''),
                     (''senha_hash'', JStr ''senha-em-texto'')] \<rparr>"

definition demo_db :: db where
  "demo_db =
     \<lparr> usuarios_by_email =
         (\<lambda>e. if e = ''ana@example.com'' then Some demo_user
              else if e = ''rui@example.com'' then Some demo_legacy_user
              else None),
       usuarios_by_id =
         (\<lambda>i. if i = Oid demo_sub then Some demo_user
              else if i = doc_id demo_legacy_user then Some demo_legacy_user
              else None) \<rparr>"

definition empty_db :: db where
  "empty_db = \<lparr> usuarios_by_email = (\<lambda>e. None), usuarios_by_id = (\<lambda>i. None) \<rparr>"

section \<open>Basic facts about the token functions\<close>

declare nat_str.simps [simp del]

declare floor_log2.simps [simp del]

lemmas demo_defs =
  demo_ext_def demo_serialize_def demo_parse_def demo_mac_def demo_access_jws_def
  demo_major_jws_def demo_major_bad_id_jws_def demo_sub_def default_settings_def
  demo_handler_verify_def demo_ObjectId_def is_hex_def

subsection \<open>Whole seconds of a clock reading\<close>

text \<open>
  Up to \<open>2 ^ 34\<close> seconds after the epoch (30 May 2514) the double of
  \<open>timestamp()\<close> truncates to the whole second of the reading; from there on
  a reading late in its second can round up to the next one.
\<close>

lemma round_half_even_bounds:
  assumes "0 < b"
  shows "a div b \<le> round_half_even a b" and "2 * (round_half_even a b * b) \<le> 2 * a + b"
proof -
  have a: "a = a div b * b + a mod b" by simp
  have m: "0 \<le> a mod b" "a mod b < b" using assms by simp_all
  show "a div b \<le> round_half_even a b"
    by (simp add: round_half_even_def Let_def)
  have "round_half_even a b = a div b \<or> (round_half_even a b = a div b + 1 \<and> b \<le> 2 * (a mod b))"
    by (auto simp: round_half_even_def Let_def)
  then show "2 * (round_half_even a b * b) \<le> 2 * a + b"
  proof
    assume "round_half_even a b = a div b"
    moreover have "2 * (a div b * b) \<le> 2 * a + b"
      using a m assms by linarith
    ultimately show ?thesis by simp
  next
    assume h: "round_half_even a b = a div b + 1 \<and> b \<le> 2 * (a mod b)"
    have "2 * ((a div b + 1) * b) = 2 * (a div b * b) + 2 * b"
      by (simp add: algebra_simps)
    also have "\<dots> \<le> 2 * a + b"
      using a h by linarith
    finally show ?thesis using h by simp
  qed
qed

lemma floor_log2_le: "k < 2 ^ Suc m \<Longrightarrow> floor_log2 k \<le> m"
proof (induction m arbitrary: k)
  case 0
  then show ?case by (subst floor_log2.simps) simp
next
  case (Suc m)
  show ?case
  proof (cases "k < 2")
    case True
    then show ?thesis by (subst floor_log2.simps) simp
  next
    case False
    from Suc.prems have "k div 2 < 2 ^ Suc m" by simp
    from Suc.IH [OF this] False show ?thesis
      by (subst floor_log2.simps) simp
  qed
qed

lemma scaled_round_exact:
  assumes n: "0 \<le> n" and q: "524288 \<le> (q :: int)"
  shows "round_half_even (n * q) 1000000 div q = n div 1000000"
proof -
  let ?k = "n div 1000000"
  let ?m = "round_half_even (n * q) 1000000"
  have qpos: "0 < q" using q by simp
  have nk: "?k * 1000000 \<le> n" "n \<le> ?k * 1000000 + 999999"
    by (simp_all add: algebra_simps)
  have lo1: "?k * q * 1000000 \<le> n * q"
    using mult_right_mono [OF nk(1), of q] qpos by (simp add: algebra_simps)
  have "?k * q = (?k * q * 1000000) div 1000000" by simp
  also have "\<dots> \<le> (n * q) div 1000000"
    using lo1 by (rule zdiv_mono1) simp
  also have "\<dots> \<le> ?m"
    by (rule round_half_even_bounds) simp
  finally have lo: "?k * q \<le> ?m" .
  have up1: "n * q \<le> (?k * 1000000 + 999999) * q"
    using mult_right_mono [OF nk(2), of q] qpos by simp
  have "2 * (?m * 1000000) \<le> 2 * (n * q) + 1000000"
    by (rule round_half_even_bounds) simp
  with up1 have "2 * (?m * 1000000) \<le> 2 * ((?k * 1000000 + 999999) * q) + 1000000"
    by linarith
  also have "\<dots> = 2000000 * (?k * q) + 1999998 * q + 1000000"
    by (simp add: algebra_simps)
  finally have "2000000 * ?m \<le> 2000000 * (?k * q) + 1999998 * q + 1000000"
    by simp
  with q have hi: "?m < ?k * q + q" by linarith
  show "?m div q = ?k"
  proof (rule int_div_pos_eq)
    show "?m = q * ?k + (?m - ?k * q)" by (simp add: algebra_simps)
    show "0 \<le> ?m - ?k * q" using lo by simp
    show "?m - ?k * q < q" using hi by simp
  qed
qed

lemma double_seconds_exact:
  assumes "0 \<le> n" and "n < 17179869184000000"
  shows "double_seconds n = n div 1000000"
proof (cases "n < 1000000")
  case True
  with assms(1) show ?thesis by (simp add: double_seconds_def)
next
  case False
  let ?k = "nat (n div 1000000)"
  have "n div 1000000 < 17179869184"
    using assms(2) by linarith
  then have "?k < 2 ^ Suc 33" by simp
  then have e: "floor_log2 ?k \<le> 33" by (rule floor_log2_le)
  have "(2 :: int) ^ 19 \<le> 2 ^ (52 - floor_log2 ?k)"
    by (rule power_increasing) (use e in simp_all)
  then have "524288 \<le> (2 :: int) ^ (52 - floor_log2 ?k)" by simp
  from scaled_round_exact [OF assms(1) this] False show ?thesis
    by (simp add: double_seconds_def Let_def)
qed

lemma int_timestamp_exact:
  assumes "0 \<le> t" and "t < 17179869184000000"
  shows "int_timestamp t = t div 1000000"
  using assms by (simp add: int_timestamp_def double_seconds_exact)

lemma int_timestamp_late: "int_timestamp 17179872784999999 = 17179872785"
  by (simp add: int_timestamp_def double_seconds_def round_half_even_def Let_def
        floor_log2.simps)

lemmas clock_defs =
  exp_helper_def expiry_after_def timedelta_def datetime_add_def
  DATETIME_MIN_def DATETIME_MAX_def int_timestamp_exact

subsection \<open>Encoding and decoding\<close>

text \<open>What a successful \<open>create_token\<close> has computed.\<close>

lemma create_token_Inr:
  assumes "create_token ext st t_exp t_iat sub kind = Inr tok"
  shows "\<exists>e sg. sub \<noteq> []
           \<and> (kind = ''access''
                \<and> exp_helper t_exp (Some (ACCESS_TOKEN_EXPIRE_MINUTES st)) None = Inr e
              \<or> kind = ''major''
                \<and> exp_helper t_exp None (Some (MAJOR_TOKEN_EXPIRE_HOURS st)) = Inr e)
           \<and> jws_mac ext (ALGORITHM st) (SECRET_KEY st)
                (ALGORITHM st, [(''sub'', JStr sub), (''type'', JStr kind), (''exp'', JInt e),
                                (''iat'', JInt (int_timestamp t_iat))]) = Some sg
           \<and> tok = jws_serialize ext
                \<lparr> jws_alg = ALGORITHM st,
                  jws_payload = [(''sub'', JStr sub), (''type'', JStr kind), (''exp'', JInt e),
                                 (''iat'', JInt (int_timestamp t_iat))],
                  jws_sig = sg \<rparr>"
  using assms
  by (auto simp: create_token_def jwt_encode_def split: if_splits sum.splits option.splits)

text \<open>\<open>decode_token\<close> on a string that parses, check by check.\<close>

lemma decode_token_parsed:
  assumes "jws_parse ext tok = Some j"
  shows "decode_token ext st now tok =
     (if jws_alg j \<noteq> ALGORITHM st
      then Inl (ValueError ''The specified alg value is not allowed'')
      else if jws_mac ext (jws_alg j) (SECRET_KEY st) (jws_alg j, jws_payload j)
                \<noteq> Some (jws_sig j)
      then Inl (ValueError ''Signature verification failed.'')
      else (case validate_exp ext (jws_payload j) (now div 1000000) of
              Inl (JWTError m) \<Rightarrow> Inl (ValueError m)
            | Inl e \<Rightarrow> Inl e
            | Inr _ \<Rightarrow> (case validate_sub (jws_payload j) of
                         Inl (JWTError m) \<Rightarrow> Inl (ValueError m)
                       | Inl e \<Rightarrow> Inl e
                       | Inr _ \<Rightarrow> Inr (jws_payload j))))"
  using assms
  by (auto simp: decode_token_def jwt_decode_def split: sum.splits error.splits)

lemma decode_token_Inr:
  assumes "decode_token ext st now tok = Inr payload"
  shows "\<exists>j. jws_parse ext tok = Some j \<and> jws_payload j = payload
           \<and> jws_alg j = ALGORITHM st
           \<and> jws_mac ext (jws_alg j) (SECRET_KEY st) (jws_alg j, payload) = Some (jws_sig j)
           \<and> validate_exp ext payload (now div 1000000) = Inr ()
           \<and> validate_sub payload = Inr ()"
  using assms
  by (auto simp: decode_token_def jwt_decode_def
           split: sum.splits error.splits option.splits if_splits)

lemma expiry_after_value:
  assumes "expiry_after now us = Inr e" and "0 \<le> now + us"
    and "now + us < 17179869184000000"
  shows "e = (now + us) div 1000000"
  using assms
  by (auto simp: expiry_after_def timedelta_def datetime_add_def int_timestamp_exact
           split: if_splits sum.splits)

lemma div_add_seconds: "(t + s * 1000000) div 1000000 = t div 1000000 + (s :: int)"
  by simp

text \<open>A delta of at most a thousand years is within the range of \<open>timedelta\<close>.\<close>

lemma days_bound:
  assumes "0 \<le> (x :: int)" and "x \<le> 31536000000"
  shows "\<bar>x * 1000000 div 86400000000\<bar> \<le> 999999999"
proof -
  have eq: "x * 1000000 div 86400000000 = x div 86400" by simp
  have lo: "0 \<le> x div 86400" using assms(1) by simp
  have "x div 86400 \<le> 31536000000 div 86400"
    using assms(2) by (rule zdiv_mono1) simp
  then have hi: "x div 86400 \<le> 999999999" by simp
  show ?thesis using lo hi by (simp only: eq abs_of_nonneg)
qed

text \<open>
  \<open>create_token\<close> returns a token for a non-empty subject and either kind when
  the reading of the clock and the expiry are datetimes (here: the clock after the
  epoch, a TTL of at most a thousand years) and the library can sign.
\<close>

lemma create_token_returns:
  assumes "sub \<noteq> []" and "kind = ''access'' \<or> kind = ''major''"
    and "0 \<le> t_exp" and "t_exp \<le> 4102444800000000"
    and "0 \<le> ttl_seconds st kind" and "ttl_seconds st kind \<le> 31536000000"
    and "\<forall>claims. jws_mac ext (ALGORITHM st) (SECRET_KEY st) (ALGORITHM st, claims) \<noteq> None"
  shows "\<exists>tok. create_token ext st t_exp t_iat sub kind = Inr tok"
proof -
  let ?us = "ttl_seconds st kind * 1000000"
  have td: "timedelta ?us = Inr ?us"
    using days_bound [OF assms(5,6)] by (simp only: timedelta_def if_True)
  have "DATETIME_MIN \<le> t_exp + ?us \<and> t_exp + ?us \<le> DATETIME_MAX"
    using assms(3-6) by (simp add: DATETIME_MIN_def DATETIME_MAX_def)
  then have da: "datetime_add t_exp ?us = Inr (t_exp + ?us)"
    by (simp add: datetime_add_def)
  have ex: "expiry_after t_exp ?us = Inr (int_timestamp (t_exp + ?us))"
    by (simp only: expiry_after_def td da sum.case)
  have helper: "(if kind = ''access''
                 then exp_helper t_exp (Some (ACCESS_TOKEN_EXPIRE_MINUTES st)) None
                 else if kind = ''major''
                 then exp_helper t_exp None (Some (MAJOR_TOKEN_EXPIRE_HOURS st))
                 else Inl (ValueError ''invalid token_type''))
               = Inr (int_timestamp (t_exp + ?us))"
  proof (cases "kind = ''access''")
    case True
    have "?us = ACCESS_TOKEN_EXPIRE_MINUTES st * 60000000"
      using True by (simp add: ttl_seconds_def)
    with ex have "expiry_after t_exp (ACCESS_TOKEN_EXPIRE_MINUTES st * 60000000)
                    = Inr (int_timestamp (t_exp + ?us))"
      by (simp only:)
    then show ?thesis
      using True by (simp add: exp_helper_def)
  next
    case False
    with assms(2) have major: "kind = ''major''" by simp
    have "?us = MAJOR_TOKEN_EXPIRE_HOURS st * 3600000000"
      using False by (simp add: ttl_seconds_def)
    with ex have "expiry_after t_exp (MAJOR_TOKEN_EXPIRE_HOURS st * 3600000000)
                    = Inr (int_timestamp (t_exp + ?us))"
      by (simp only:)
    then show ?thesis
      using major by (simp add: exp_helper_def)
  qed
  from assms(7) obtain sg where
    "jws_mac ext (ALGORITHM st) (SECRET_KEY st)
       (ALGORITHM st, [(''sub'', JStr sub), (''type'', JStr kind),
                       (''exp'', JInt (int_timestamp (t_exp + ?us))),
                       (''iat'', JInt (int_timestamp t_iat))]) = Some sg"
    by fastforce
  then show ?thesis
    using assms(1)
    unfolding create_token_def helper jwt_encode_def by simp
qed

subsection \<open>The instance at work\<close>

lemma demo_create_access:
  "create_token demo_ext default_settings 1762182000999999 1762182001000000 demo_sub ''access''
     = Inr ''h.access1.s''"
  by (simp add: create_token_def clock_defs jwt_encode_def demo_defs)

lemma demo_create_major:
  "create_token demo_ext default_settings 1762182000000100 1762182000000200 demo_sub ''major''
     = Inr ''h.major1.s''"
  by (simp add: create_token_def clock_defs jwt_encode_def demo_defs)

lemma demo_create_major_bad_id:
  "create_token demo_ext default_settings 1762182000000100 1762182000000200 ''abc'' ''major''
     = Inr ''h.major2.s''"
  by (simp add: create_token_def clock_defs jwt_encode_def demo_defs)

lemma demo_wire_access:
  "\<forall>j. jws_serialize demo_ext j = ''h.access1.s''
       \<longrightarrow> jws_parse demo_ext ''h.access1.s'' = Some j"
  by (simp add: demo_ext_def demo_serialize_def demo_parse_def)

lemma demo_claim_exp: "token_claim demo_ext ''h.access1.s'' ''exp'' = Some (JInt 1762185600)"
  by (simp add: token_claim_def dict_get_def demo_defs)

lemma demo_claim_iat: "token_claim demo_ext ''h.access1.s'' ''iat'' = Some (JInt 1762182001)"
  by (simp add: token_claim_def dict_get_def demo_defs)


section \<open>The token codec\<close>

text \<open>
  C1. Round trip: a token produced by \<open>create_token\<close> for subject \<open>sub\<close> and kind
  \<open>kind\<close>, when the library parses the string back to what it serialised, carries an
  \<open>exp\<close> claim, and decoding it with the same settings at any time before that
  expiry returns a payload whose \<open>sub\<close> is \<open>sub\<close> and whose \<open>type\<close> is \<open>kind\<close>.
\<close>

theorem create_decode_roundtrip:
  assumes enc: "create_token ext st t_exp t_iat sub kind = Inr tok"
    and wire: "\<forall>j. jws_serialize ext j = tok \<longrightarrow> jws_parse ext tok = Some j"
  shows "\<exists>e. token_claim ext tok ''exp'' = Some (JInt e)
            \<and> (\<forall>now_us. now_us div 1000000 < e \<longrightarrow>
                 (\<exists>payload. decode_token ext st now_us tok = Inr payload
                    \<and> dict_get payload ''sub'' = Some (JStr sub)
                    \<and> dict_get payload ''type'' = Some (JStr kind)))"
proof -
  let ?claims = "\<lambda>e. [(''sub'', JStr sub), (''type'', JStr kind), (''exp'', JInt e),
                      (''iat'', JInt (int_timestamp t_iat))]"
  from create_token_Inr [OF enc] obtain e sg where
    mac: "jws_mac ext (ALGORITHM st) (SECRET_KEY st) (ALGORITHM st, ?claims e) = Some sg"
    and tok: "tok = jws_serialize ext
                \<lparr> jws_alg = ALGORITHM st, jws_payload = ?claims e, jws_sig = sg \<rparr>"
    by blast
  let ?j = "\<lparr> jws_alg = ALGORITHM st, jws_payload = ?claims e, jws_sig = sg \<rparr>"
  from wire tok have parse: "jws_parse ext tok = Some ?j" by simp
  have claim: "token_claim ext tok ''exp'' = Some (JInt e)"
    by (simp add: token_claim_def parse dict_get_def)
  have dec: "decode_token ext st now_us tok = Inr (jws_payload ?j)"
    if "now_us div 1000000 < e" for now_us
    using that mac
    by (simp add: decode_token_parsed [OF parse] validate_exp_def py_int_def validate_sub_def
          dict_get_def)
  show ?thesis
    using claim dec by (auto simp: dict_get_def)
qed

theorem create_decode_roundtrip_witness:
  "create_token demo_ext default_settings 1762182000999999 1762182001000000 demo_sub ''access''
     = Inr ''h.access1.s''
   \<and> token_claim demo_ext ''h.access1.s'' ''exp'' = Some (JInt 1762185600)
   \<and> (1762182060000000 :: int) div 1000000 < 1762185600
   \<and> (\<exists>payload. decode_token demo_ext default_settings 1762182060000000 ''h.access1.s''
                   = Inr payload
          \<and> dict_get payload ''sub'' = Some (JStr demo_sub)
          \<and> dict_get payload ''type'' = Some (JStr ''access''))"
proof -
  from create_decode_roundtrip [OF demo_create_access demo_wire_access]
  obtain e where e: "token_claim demo_ext ''h.access1.s'' ''exp'' = Some (JInt e)"
    and dec: "\<And>now_us. now_us div 1000000 < e \<Longrightarrow>
               \<exists>payload. decode_token demo_ext default_settings now_us ''h.access1.s''
                            = Inr payload
                  \<and> dict_get payload ''sub'' = Some (JStr demo_sub)
                  \<and> dict_get payload ''type'' = Some (JStr ''access'')"
    by blast
  from e demo_claim_exp have "e = 1762185600" by simp
  with dec [of 1762182060000000] demo_create_access demo_claim_exp
  show ?thesis by simp
qed




text \<open>
  C5. \<open>create_token\<close> with an empty subject, or with a kind that is neither
  \<open>access\<close> nor \<open>major\<close>, raises \<open>ValueError\<close> (the invalid-argument error of this
  code) and returns no token.
\<close>

theorem create_token_invalid_argument:
  assumes "sub = [] \<or> (kind \<noteq> ''access'' \<and> kind \<noteq> ''major'')"
  shows "\<exists>msg. create_token ext st t_exp t_iat sub kind = Inl (ValueError msg)"
  using assms by (auto simp: create_token_def)

theorem create_token_invalid_argument_witness:
  "(([] :: string) = [] \<or> (''major'' \<noteq> ''access'' \<and> ''major'' \<noteq> ''major''))
   \<and> (demo_sub = [] \<or> (''refresh'' \<noteq> ''access'' \<and> ''refresh'' \<noteq> ''major''))
   \<and> (\<exists>msg. create_token demo_ext default_settings 1762182000999999 1762182001000000
                 [] ''major'' = Inl (ValueError msg))
   \<and> (\<exists>msg. create_token demo_ext default_settings 1762182000999999 1762182001000000
                 demo_sub ''refresh'' = Inl (ValueError msg))"
  using create_token_invalid_argument
          [of "[]" "''major''" demo_ext default_settings 1762182000999999 1762182001000000]
        create_token_invalid_argument
          [of demo_sub "''refresh''" demo_ext default_settings 1762182000999999 1762182001000000]
  by simp

text \<open>
  C7, as the code has it. With a non-negative TTL and both the expiry and the
  second reading between the epoch and \<open>2 ^ 34\<close> seconds after it (30 May 2514),
  the \<open>exp\<close> claim is the whole second of the reading taken inside \<open>_exp\<close> plus the
  TTL of the kind in seconds, and \<open>iat\<close> is the whole second of the second reading;
  so \<open>exp = iat + TTL\<close> whenever the two readings fall in the same second.
\<close>

theorem exp_arithmetic:
  assumes enc: "create_token ext st t_exp t_iat sub kind = Inr tok"
    and wire: "\<forall>j. jws_serialize ext j = tok \<longrightarrow> jws_parse ext tok = Some j"
    and clock: "0 \<le> t_exp" "0 \<le> t_iat"
    and ttl: "0 \<le> ttl_seconds st kind"
    and before: "t_exp + ttl_seconds st kind * 1000000 < 17179869184000000"
                "t_iat < 17179869184000000"
  shows "\<exists>e i. token_claim ext tok ''exp'' = Some (JInt e)
             \<and> token_claim ext tok ''iat'' = Some (JInt i)
             \<and> e = t_exp div 1000000 + ttl_seconds st kind
             \<and> i = t_iat div 1000000
             \<and> (t_exp div 1000000 = t_iat div 1000000 \<longrightarrow> e = i + ttl_seconds st kind)"
proof -
  let ?claims = "\<lambda>e. [(''sub'', JStr sub), (''type'', JStr kind), (''exp'', JInt e),
                      (''iat'', JInt (int_timestamp t_iat))]"
  from create_token_Inr [OF enc] obtain e sg where
    kind: "kind = ''access''
             \<and> exp_helper t_exp (Some (ACCESS_TOKEN_EXPIRE_MINUTES st)) None = Inr e
           \<or> kind = ''major''
             \<and> exp_helper t_exp None (Some (MAJOR_TOKEN_EXPIRE_HOURS st)) = Inr e"
    and tok: "tok = jws_serialize ext
                \<lparr> jws_alg = ALGORITHM st, jws_payload = ?claims e, jws_sig = sg \<rparr>"
    by blast
  from wire tok have parse: "jws_parse ext tok
      = Some \<lparr> jws_alg = ALGORITHM st, jws_payload = ?claims e, jws_sig = sg \<rparr>"
    by simp
  have ex: "expiry_after t_exp (ttl_seconds st kind * 1000000) = Inr e"
  proof (cases "kind = ''access''")
    case True
    have "ttl_seconds st kind * 1000000 = ACCESS_TOKEN_EXPIRE_MINUTES st * 60000000"
      using True by (simp add: ttl_seconds_def)
    moreover have "expiry_after t_exp (ACCESS_TOKEN_EXPIRE_MINUTES st * 60000000) = Inr e"
      using kind True by (simp add: exp_helper_def)
    ultimately show ?thesis by (simp only:)
  next
    case False
    have "ttl_seconds st kind * 1000000 = MAJOR_TOKEN_EXPIRE_HOURS st * 3600000000"
      using False by (simp add: ttl_seconds_def)
    moreover have "expiry_after t_exp (MAJOR_TOKEN_EXPIRE_HOURS st * 3600000000) = Inr e"
      using kind False by (simp add: exp_helper_def)
    ultimately show ?thesis by (simp only:)
  qed
  have "0 \<le> t_exp + ttl_seconds st kind * 1000000"
    using clock ttl by simp
  from expiry_after_value [OF ex this before(1)]
  have e: "e = t_exp div 1000000 + ttl_seconds st kind"
    by (simp only: div_add_seconds)
  have i: "int_timestamp t_iat = t_iat div 1000000"
    using clock before by (simp add: int_timestamp_exact)
  show ?thesis
    using e i by (simp add: token_claim_def parse dict_get_def)
qed

theorem exp_arithmetic_witness:
  "create_token demo_ext default_settings 1762182000999999 1762182001000000 demo_sub ''access''
     = Inr ''h.access1.s''
   \<and> (0 :: int) \<le> 1762182000999999 \<and> (0 :: int) \<le> 1762182001000000
   \<and> 0 \<le> ttl_seconds default_settings ''access''
   \<and> 1762182000999999 + ttl_seconds default_settings ''access'' * 1000000 < 17179869184000000
   \<and> (1762182001000000 :: int) < 17179869184000000
   \<and> token_claim demo_ext ''h.access1.s'' ''exp''
        = Some (JInt (1762182000999999 div 1000000 + ttl_seconds default_settings ''access''))
   \<and> token_claim demo_ext ''h.access1.s'' ''iat'' = Some (JInt (1762182001000000 div 1000000))"
proof -
  have ttl: "0 \<le> ttl_seconds default_settings ''access''"
    by (simp add: ttl_seconds_def default_settings_def)
  have b: "1762182000999999 + ttl_seconds default_settings ''access'' * 1000000
             < 17179869184000000"
    by (simp add: ttl_seconds_def default_settings_def)
  from exp_arithmetic [OF demo_create_access demo_wire_access _ _ ttl b]
  show ?thesis
    using demo_create_access ttl b by auto
qed

text \<open>
  C7 as stated fails when the two clock readings of \<open>create_token\<close> straddle a
  second: read at 15:00:00.999999 and 15:00:01.000000, the access token of the
  instance has \<open>exp\<close> one second short of \<open>iat\<close> plus the sixty minutes.
\<close>

theorem exp_iat_counterexample:
  "create_token demo_ext default_settings 1762182000999999 1762182001000000 demo_sub ''access''
     = Inr ''h.access1.s''
   \<and> token_claim demo_ext ''h.access1.s'' ''exp'' = Some (JInt 1762185600)
   \<and> token_claim demo_ext ''h.access1.s'' ''iat'' = Some (JInt 1762182001)
   \<and> (1762185600 :: int) \<noteq> 1762182001 + ACCESS_TOKEN_EXPIRE_MINUTES default_settings * 60"
  using demo_create_access demo_claim_exp demo_claim_iat
  by (simp add: default_settings_def)

section \<open>Passwords\<close>

text \<open>
  C4, as the code has it. \<open>verify_password\<close> returns \<open>False\<close> without raising when
  the digest is the empty string (or \<open>None\<close>); on a non-empty digest that no
  configured scheme recognises, the library call raises \<open>UnknownHashError\<close> (a
  \<open>ValueError\<close>), which \<open>verify_password\<close> does not catch.
\<close>

theorem verify_password_digest:
  "verify_password ext plain (JStr []) = Inr False
   \<and> verify_password ext plain JNull = Inr False
   \<and> (h \<noteq> [] \<and> identify h = None
        \<longrightarrow> verify_password ext plain (JStr h) = Inl UnknownHashError)"
  by (simp add: verify_password_def pwd_context_verify_def)

lemma demo_identify: "identify ''plaintext-senha'' = None"
  by (simp add: identify_def bcrypt_idents_def)

theorem verify_password_digest_witness:
  "''plaintext-senha'' \<noteq> [] \<and> identify ''plaintext-senha'' = None
   \<and> verify_password demo_ext ''s3nha'' (JStr ''plaintext-senha'') = Inl UnknownHashError
   \<and> verify_password demo_ext ''s3nha'' (JStr []) = Inr False"
  using verify_password_digest [of demo_ext "''s3nha''" "''plaintext-senha''"] demo_identify
  by simp

text \<open>
  C4 as stated fails on a malformed digest: verifying against \<open>not-a-hash\<close>
  raises instead of returning \<open>False\<close>.
\<close>

theorem verify_malformed_counterexample:
  "identify ''not-a-hash'' = None
   \<and> verify_password demo_ext ''s3nha'' (JStr ''not-a-hash'') = Inl UnknownHashError"
  by (simp add: verify_password_def pwd_context_verify_def identify_def bcrypt_idents_def)

section \<open>Login\<close>

lemma demo_verify_wrong_password:
  "verify_password demo_ext ''errada''
     (dict_get_or (doc_fields demo_user) ''senha_hash'' (JStr [])) = Inr False"
  by (simp add: verify_password_def pwd_context_verify_def identify_def bcrypt_idents_def
        dict_get_or_def demo_user_def demo_ext_def demo_handler_verify_def demo_digest_def)

lemma demo_verify_legacy_digest:
  "verify_password demo_ext ''errada''
     (dict_get_or (doc_fields demo_legacy_user) ''senha_hash'' (JStr [])) = Inl UnknownHashError"
  by (simp add: verify_password_def pwd_context_verify_def identify_def bcrypt_idents_def
        dict_get_or_def demo_legacy_user_def)

lemma demo_db_bob: "usuarios_by_email demo_db ''bob@example.com'' = None"
  by (simp add: demo_db_def)

lemma demo_db_ana: "usuarios_by_email demo_db ''ana@example.com'' = Some demo_user"
  by (simp add: demo_db_def)

lemma demo_db_rui: "usuarios_by_email demo_db ''rui@example.com'' = Some demo_legacy_user"
  by (simp add: demo_db_def)

text \<open>
  C6, as the code has it. A login for an email that matches no user record and a
  login for an existing user on whose digest \<open>verify_password\<close> returns \<open>False\<close>
  raise the same exception (status 401, the invalid-credentials detail, no extra
  header), so the two responses are equal. When \<open>verify_password\<close> raises instead,
  \<open>login\<close> does not catch it: the exception itself is the outcome, not the 401.
\<close>

theorem login_uniform_failure:
  assumes "usuarios_by_email d email = None"
    and "usuarios_by_email d email' = Some user"
    and "verify_password ext senha' (dict_get_or (doc_fields user) ''senha_hash'' (JStr []))
           = Inr False"
  shows "login ext d st clock email senha = Inl (HTTPException 401 CREDENCIAIS_INVALIDAS [])
         \<and> login ext d st clock' email' senha' = login ext d st clock email senha
         \<and> (\<forall>email'' user'' senha'' clock'' e.
               usuarios_by_email d email'' = Some user''
               \<and> verify_password ext senha''
                    (dict_get_or (doc_fields user'') ''senha_hash'' (JStr [])) = Inl e
               \<longrightarrow> login ext d st clock'' email'' senha'' = Inl e)"
  using assms by (auto simp add: login_def split: prod.splits)

theorem login_uniform_failure_witness:
  "usuarios_by_email demo_db ''bob@example.com'' = None
   \<and> usuarios_by_email demo_db ''ana@example.com'' = Some demo_user
   \<and> verify_password demo_ext ''errada''
        (dict_get_or (doc_fields demo_user) ''senha_hash'' (JStr [])) = Inr False
   \<and> login demo_ext demo_db default_settings (1, 2, 3, 4) ''bob@example.com'' ''U*U''
        = Inl (HTTPException 401 CREDENCIAIS_INVALIDAS [])
   \<and> login demo_ext demo_db default_settings (5, 6, 7, 8) ''ana@example.com'' ''errada''
        = login demo_ext demo_db default_settings (1, 2, 3, 4) ''bob@example.com'' ''U*U''
   \<and> usuarios_by_email demo_db ''rui@example.com'' = Some demo_legacy_user
   \<and> verify_password demo_ext ''errada''
        (dict_get_or (doc_fields demo_legacy_user) ''senha_hash'' (JStr []))
        = Inl UnknownHashError
   \<and> login demo_ext demo_db default_settings (5, 6, 7, 8) ''rui@example.com'' ''errada''
        = Inl UnknownHashError"
proof -
  note t = login_uniform_failure [OF demo_db_bob demo_db_ana demo_verify_wrong_password]
  have "login demo_ext demo_db default_settings (1, 2, 3, 4) ''bob@example.com'' ''U*U''
          = Inl (HTTPException 401 CREDENCIAIS_INVALIDAS [])"
    using t by blast
  moreover have "login demo_ext demo_db default_settings (5, 6, 7, 8) ''ana@example.com''
                   ''errada''
          = login demo_ext demo_db default_settings (1, 2, 3, 4) ''bob@example.com'' ''U*U''"
    using t by blast
  moreover have "login demo_ext demo_db default_settings (5, 6, 7, 8) ''rui@example.com''
                   ''errada'' = Inl UnknownHashError"
    using t demo_db_rui demo_verify_legacy_digest by blast
  ultimately show ?thesis
    using demo_db_bob demo_db_ana demo_verify_wrong_password demo_db_rui
      demo_verify_legacy_digest
    by simp
qed

text \<open>
  C6 as stated fails for an existing user whose stored digest no scheme
  recognises: the login ends in the library's \<open>UnknownHashError\<close>, while the login
  for an unknown email ends in the 401.
\<close>

theorem login_digest_counterexample:
  "usuarios_by_email demo_db ''bob@example.com'' = None
   \<and> usuarios_by_email demo_db ''rui@example.com'' = Some demo_legacy_user
   \<and> login demo_ext demo_db default_settings (1, 2, 3, 4) ''bob@example.com'' ''errada''
        = Inl (HTTPException 401 CREDENCIAIS_INVALIDAS [])
   \<and> login demo_ext demo_db default_settings (1, 2, 3, 4) ''rui@example.com'' ''errada''
        = Inl UnknownHashError"
  using demo_db_bob demo_db_rui demo_verify_legacy_digest
  by (simp add: login_def)

section \<open>The kind of a token\<close>

lemma token_claim_decoded:
  assumes "decode_token ext st now tok = Inr payload"
  shows "dict_get payload k = token_claim ext tok k"
  using decode_token_Inr [OF assms] by (auto simp: token_claim_def)

lemma demo_claim_type_access:
  "token_claim demo_ext ''h.access1.s'' ''type'' = Some (JStr ''access'')"
  by (simp add: token_claim_def dict_get_def demo_defs)

lemma demo_claim_type_major:
  "token_claim demo_ext ''h.major1.s'' ''type'' = Some (JStr ''major'')"
  by (simp add: token_claim_def dict_get_def demo_defs)

text \<open>
  C2. A token whose \<open>type\<close> claim is \<open>access\<close>, sent as the \<open>major_token\<close> cookie,
  makes \<open>refresh\<close> fail with status 401; a token whose \<open>type\<close> claim is \<open>major\<close>,
  given to \<open>get_current_user_id\<close> as the bearer token, makes it fail with its
  401 and the \<open>WWW-Authenticate: Bearer\<close> header.
\<close>

theorem cross_kind_rejected:
  assumes "token_claim ext a ''type'' = Some (JStr ''access'')"
    and "dict_get cookies COOKIE_NAME = Some a"
    and "token_claim ext m ''type'' = Some (JStr ''major'')"
  shows "(\<exists>detail. refresh ext d st clock cookies = Inl (HTTPException 401 detail []))
         \<and> get_current_user_id ext st now_us m = Inl unauthorized_bearer"
proof
  obtain t0 t1 t2 where clock: "clock = (t0, t1, t2)" by (cases clock) auto
  show "\<exists>detail. refresh ext d st clock cookies = Inl (HTTPException 401 detail [])"
  proof (cases "decode_token ext st t0 a")
    case (Inl e)
    then show ?thesis
      using assms(2) by (simp add: refresh_def clock)
  next
    case (Inr payload)
    from token_claim_decoded [OF Inr] assms(1)
    have "dict_get payload ''type'' = Some (JStr ''access'')" by simp
    then show ?thesis
      using assms(2) Inr by (simp add: refresh_def clock)
  qed
  show "get_current_user_id ext st now_us m = Inl unauthorized_bearer"
  proof (cases "decode_token ext st now_us m")
    case (Inl e)
    then show ?thesis by (simp add: get_current_user_id_def)
  next
    case (Inr payload)
    from token_claim_decoded [OF Inr] assms(3)
    have "dict_get payload ''type'' = Some (JStr ''major'')" by simp
    then show ?thesis
      using Inr by (simp add: get_current_user_id_def)
  qed
qed

theorem cross_kind_rejected_witness:
  "token_claim demo_ext ''h.access1.s'' ''type'' = Some (JStr ''access'')
   \<and> dict_get [(''major_token'', ''h.access1.s'')] COOKIE_NAME = Some ''h.access1.s''
   \<and> token_claim demo_ext ''h.major1.s'' ''type'' = Some (JStr ''major'')
   \<and> (\<exists>detail. refresh demo_ext demo_db default_settings
                   (1762182060000000, 1762182060000100, 1762182060000200)
                   [(''major_token'', ''h.access1.s'')] = Inl (HTTPException 401 detail []))
   \<and> get_current_user_id demo_ext default_settings 1762182060000000 ''h.major1.s''
        = Inl unauthorized_bearer"
proof -
  have c: "dict_get [(''major_token'', ''h.access1.s'')] COOKIE_NAME = Some ''h.access1.s''"
    by (simp add: dict_get_def COOKIE_NAME_def)
  from cross_kind_rejected [OF demo_claim_type_access c demo_claim_type_major]
  show ?thesis
    using demo_claim_type_access c demo_claim_type_major by blast
qed

section \<open>Refresh\<close>

lemma refresh_Inr:
  assumes "refresh ext d st (t0, t1, t2) cookies = Inr r"
  shows "\<exists>major payload user_id oid user u.
           dict_get cookies COOKIE_NAME = Some major \<and> major \<noteq> []
           \<and> decode_token ext st t0 major = Inr payload
           \<and> dict_get payload ''type'' = Some (JStr ''major'')
           \<and> dict_get payload ''sub'' = Some (JStr user_id)
           \<and> ObjectId ext user_id = Some oid
           \<and> usuarios_by_id d oid = Some user
           \<and> create_token ext st t1 t2 user_id ''access'' = Inr (access_token (body r))
           \<and> usuario_read ext (build_safe_user user) = Some u
           \<and> r = \<lparr> body = \<lparr> access_token = access_token (body r), token_type = ''bearer'',
                              usuario = u \<rparr>,
                    set_cookies = [] \<rparr>"
  using assms
  by (auto simp: refresh_def split: option.splits if_splits sum.splits jvalue.splits)

lemma refresh_sets_no_cookie:
  "refresh ext d st clock cookies = Inr r \<Longrightarrow> set_cookies r = []"
  by (auto simp: refresh_def split: prod.splits option.splits if_splits sum.splits jvalue.splits)

lemma refresh_session_jar: "refresh_session ext d st clocks jar = jar"
proof (induction clocks)
  case Nil
  show ?case by simp
next
  case (Cons clock clocks)
  show ?case
  proof (cases "refresh ext d st clock jar")
    case (Inl e)
    then show ?thesis using Cons.IH by simp
  next
    case (Inr r)
    from refresh_sets_no_cookie [OF Inr] have "store_cookies jar (set_cookies r) = jar"
      by (simp add: store_cookies_def)
    then show ?thesis using Inr Cons.IH by simp
  qed
qed

text \<open>
  C8. A successful \<open>refresh\<close> sets no cookie, so a cookie jar that stores what the
  response sets is unchanged; the one token it returns is the access token that
  \<open>create_token\<close> made for the subject of the major token; and after any number
  of refreshes the jar, with its \<open>major_token\<close> cookie and hence that token's
  \<open>exp\<close>, is what it was.
\<close>

theorem refresh_frame:
  assumes "refresh ext d st (t0, t1, t2) cookies = Inr r"
  shows "set_cookies r = []
         \<and> store_cookies cookies (set_cookies r) = cookies
         \<and> (\<exists>major payload user_id.
               dict_get cookies COOKIE_NAME = Some major
               \<and> decode_token ext st t0 major = Inr payload
               \<and> dict_get payload ''sub'' = Some (JStr user_id)
               \<and> create_token ext st t1 t2 user_id ''access'' = Inr (access_token (body r)))
         \<and> refresh_session ext d st clocks cookies = cookies"
proof -
  from refresh_Inr [OF assms] obtain major payload user_id where
    "dict_get cookies COOKIE_NAME = Some major"
    "decode_token ext st t0 major = Inr payload"
    "dict_get payload ''sub'' = Some (JStr user_id)"
    "create_token ext st t1 t2 user_id ''access'' = Inr (access_token (body r))"
    by blast
  moreover have "set_cookies r = []"
    using assms by (rule refresh_sets_no_cookie)
  ultimately show ?thesis
    by (auto simp: store_cookies_def refresh_session_jar)
qed

lemma demo_decode_major:
  "decode_token demo_ext default_settings 1762182000500000 ''h.major1.s''
     = Inr [(''sub'', JStr demo_sub), (''type'', JStr ''major''),
            (''exp'', JInt 1762207200), (''iat'', JInt 1762182000)]"
  by (simp add: decode_token_def jwt_decode_def validate_exp_def py_int_def validate_sub_def
        dict_get_def demo_defs)

lemma demo_decode_major_bad_id:
  "decode_token demo_ext default_settings 1762182000500000 ''h.major2.s''
     = Inr [(''sub'', JStr ''abc''), (''type'', JStr ''major''),
            (''exp'', JInt 1762207200), (''iat'', JInt 1762182000)]"
  by (simp add: decode_token_def jwt_decode_def validate_exp_def py_int_def validate_sub_def
        dict_get_def demo_defs)

lemma demo_ObjectId_sub: "ObjectId demo_ext demo_sub = Some (Oid demo_sub)"
  by (simp add: demo_defs)

lemma demo_ObjectId_abc: "ObjectId demo_ext ''abc'' = None"
  by (simp add: demo_defs)

lemma demo_db_by_id: "usuarios_by_id demo_db (Oid demo_sub) = Some demo_user"
  by (simp add: demo_db_def)

lemma empty_db_by_id: "usuarios_by_id empty_db i = None"
  by (simp add: empty_db_def)

lemma demo_usuario_read: "usuario_read demo_ext u = Some u"
  by (simp add: demo_ext_def)

lemma demo_cookie:
  "dict_get [(''major_token'', v)] COOKIE_NAME = Some v"
  by (simp add: dict_get_def COOKIE_NAME_def)

lemma demo_sub_nonempty: "demo_sub \<noteq> []"
  by (simp add: demo_sub_def)

lemma demo_refresh:
  "refresh demo_ext demo_db default_settings
     (1762182000500000, 1762182000999999, 1762182001000000) [(''major_token'', ''h.major1.s'')]
   = Inr \<lparr> body = \<lparr> access_token = ''h.access1.s'', token_type = ''bearer'',
                    usuario = build_safe_user demo_user \<rparr>,
           set_cookies = [] \<rparr>"
  by (simp add: refresh_def demo_cookie demo_decode_major demo_create_access
        demo_ObjectId_sub demo_db_by_id demo_usuario_read dict_get_def COOKIE_NAME_def
        demo_sub_nonempty)

theorem refresh_frame_witness:
  "refresh demo_ext demo_db default_settings
     (1762182000500000, 1762182000999999, 1762182001000000) [(''major_token'', ''h.major1.s'')]
   = Inr \<lparr> body = \<lparr> access_token = ''h.access1.s'', token_type = ''bearer'',
                    usuario = build_safe_user demo_user \<rparr>,
           set_cookies = [] \<rparr>
   \<and> store_cookies [(''major_token'', ''h.major1.s'')] [] = [(''major_token'', ''h.major1.s'')]
   \<and> refresh_session demo_ext demo_db default_settings
        [(1762182000500000, 1762182000999999, 1762182001000000),
         (1762182000500000, 1762182000999999, 1762182001000000)]
        [(''major_token'', ''h.major1.s'')] = [(''major_token'', ''h.major1.s'')]"
  using refresh_frame [OF demo_refresh] demo_refresh
  by simp

text \<open>
  C9, as the code has it. When the major token decodes, has type \<open>major\<close>, and its
  \<open>sub\<close> is empty or resolves to no user record, \<open>refresh\<close> fails with status 401
  (never a not-found status); the detail of the response names the cause: the
  invalid-token detail for an empty \<open>sub\<close>, the invalid-id detail when \<open>sub\<close> is not
  an object identifier, and the user-not-found detail when no record has that
  identifier.
\<close>

theorem refresh_unresolved_subject:
  assumes cookie: "dict_get cookies COOKIE_NAME = Some major" "major \<noteq> []"
    and dec: "decode_token ext st t0 major = Inr payload"
    and kind: "dict_get payload ''type'' = Some (JStr ''major'')"
    and sub: "\<not> truthy (dict_get payload ''sub'') \<or> \<not> resolves ext d (dict_get payload ''sub'')"
  shows "(\<exists>detail. refresh ext d st (t0, t1, t2) cookies = Inl (HTTPException 401 detail []))
         \<and> (\<not> truthy (dict_get payload ''sub'') \<longrightarrow>
              refresh ext d st (t0, t1, t2) cookies
                = Inl (HTTPException 401 MAJOR_TOKEN_INVALIDO []))
         \<and> (\<forall>s. dict_get payload ''sub'' = Some (JStr s) \<and> s \<noteq> [] \<and> ObjectId ext s = None \<longrightarrow>
              refresh ext d st (t0, t1, t2) cookies
                = Inl (HTTPException 401 ID_INVALIDO_NO_TOKEN []))
         \<and> (\<forall>s oid. dict_get payload ''sub'' = Some (JStr s) \<and> s \<noteq> []
                  \<and> ObjectId ext s = Some oid \<longrightarrow>
              refresh ext d st (t0, t1, t2) cookies
                = Inl (HTTPException 401 USUARIO_NAO_ENCONTRADO []))"
proof -
  from decode_token_Inr [OF dec] have vs: "validate_sub payload = Inr ()" by blast
  show ?thesis
  proof (cases "dict_get payload ''sub''")
    case None
    then show ?thesis
      using cookie dec kind by (simp add: refresh_def)
  next
    case (Some v)
    then obtain s where s: "dict_get payload ''sub'' = Some (JStr s)"
      using vs by (cases v) (simp_all add: validate_sub_def)
    show ?thesis
    proof (cases "s = []")
      case True
      then show ?thesis
        using cookie dec kind s by (simp add: refresh_def)
    next
      case False
      with sub s have nores: "\<not> resolves ext d (Some (JStr s))" by simp
      show ?thesis
      proof (cases "ObjectId ext s")
        case None
        then show ?thesis
          using cookie dec kind s False by (simp add: refresh_def)
      next
        case (Some oid)
        with nores have "usuarios_by_id d oid = None"
          by (simp add: resolves_def)
        then show ?thesis
          using cookie dec kind s False Some by (simp add: refresh_def)
      qed
    qed
  qed
qed

lemma demo_refresh_missing_user:
  "refresh demo_ext empty_db default_settings
     (1762182000500000, 1762182000999999, 1762182001000000) [(''major_token'', ''h.major1.s'')]
   = Inl (HTTPException 401 USUARIO_NAO_ENCONTRADO [])"
  by (simp add: refresh_def demo_cookie demo_decode_major demo_ObjectId_sub empty_db_by_id
        dict_get_def COOKIE_NAME_def demo_sub_nonempty)

theorem refresh_unresolved_subject_witness:
  "dict_get [(''major_token'', ''h.major1.s'')] COOKIE_NAME = Some ''h.major1.s''
   \<and> ''h.major1.s'' \<noteq> []
   \<and> decode_token demo_ext default_settings 1762182000500000 ''h.major1.s''
       = Inr [(''sub'', JStr demo_sub), (''type'', JStr ''major''),
              (''exp'', JInt 1762207200), (''iat'', JInt 1762182000)]
   \<and> \<not> resolves demo_ext empty_db (Some (JStr demo_sub))
   \<and> (\<exists>detail. refresh demo_ext empty_db default_settings
                   (1762182000500000, 1762182000999999, 1762182001000000)
                   [(''major_token'', ''h.major1.s'')] = Inl (HTTPException 401 detail []))"
proof -
  let ?payload = "[(''sub'', JStr demo_sub), (''type'', JStr ''major''),
                   (''exp'', JInt 1762207200), (''iat'', JInt 1762182000)]"
  have c: "dict_get [(''major_token'', ''h.major1.s'')] COOKIE_NAME = Some ''h.major1.s''"
    by (rule demo_cookie)
  have n: "''h.major1.s'' \<noteq> []" by simp
  have k: "dict_get ?payload ''type'' = Some (JStr ''major'')"
    by (simp add: dict_get_def)
  have r: "\<not> resolves demo_ext empty_db (Some (JStr demo_sub))"
    by (simp add: resolves_def demo_ObjectId_sub empty_db_by_id)
  have s: "\<not> truthy (dict_get ?payload ''sub'') \<or> \<not> resolves demo_ext empty_db (dict_get ?payload ''sub'')"
    using r by (simp add: dict_get_def)
  from refresh_unresolved_subject [OF c n demo_decode_major k s]
  show ?thesis
    using c demo_decode_major r by blast
qed

text \<open>
  C9 as stated fails on what the response reveals: for a well-formed identifier
  with no record the detail is the user-not-found message, which differs from the
  detail returned for a subject that is not an identifier.
\<close>

theorem refresh_detail_counterexample:
  "refresh demo_ext empty_db default_settings
     (1762182000500000, 1762182000999999, 1762182001000000) [(''major_token'', ''h.major1.s'')]
     = Inl (HTTPException 401 USUARIO_NAO_ENCONTRADO [])
   \<and> refresh demo_ext empty_db default_settings
       (1762182000500000, 1762182000999999, 1762182001000000) [(''major_token'', ''h.major2.s'')]
     = Inl (HTTPException 401 ID_INVALIDO_NO_TOKEN [])
   \<and> USUARIO_NAO_ENCONTRADO \<noteq> ID_INVALIDO_NO_TOKEN"
  by (simp add: demo_refresh_missing_user)
     (simp add: refresh_def demo_cookie demo_decode_major_bad_id demo_ObjectId_abc
        dict_get_def COOKIE_NAME_def USUARIO_NAO_ENCONTRADO_def ID_INVALIDO_NO_TOKEN_def)

section \<open>The endpoint /auth/me\<close>

lemma replace_bearer_no_space:
  "CHR '' '' \<notin> set s \<Longrightarrow> replace_bearer s = s"
proof (induction s)
  case Nil
  show ?case by simp
next
  case (Cons c cs)
  have "\<not> prefix ''Bearer '' (c # cs)"
  proof
    assume "prefix ''Bearer '' (c # cs)"
    then have "set ''Bearer '' \<subseteq> set (c # cs)" by (rule set_mono_prefix)
    with Cons.prems show False by auto
  qed
  then have "replace_bearer (c # cs) = c # replace_bearer cs"
    by (simp only: replace_bearer.simps if_False)
  moreover have "replace_bearer cs = cs"
    using Cons by simp
  ultimately show ?case by simp
qed

lemma replace_bearer_header:
  assumes "CHR '' '' \<notin> set tok"
  shows "replace_bearer (''Bearer '' @ tok) = tok"
  using replace_bearer_no_space [OF assms] by simp

text \<open>
  C10. \<open>me\<close> does not look at the kind of the token: for a token without a space
  that decodes, whose \<open>sub\<close> is a non-empty string resolving to a stored user, the
  header \<open>Bearer <token>\<close> gets the user's data back whatever the \<open>type\<close> claim is,
  while \<open>get_current_user_id\<close> rejects the same token when its type is not
  \<open>access\<close>.
\<close>

theorem me_accepts_any_kind:
  assumes tok: "CHR '' '' \<notin> set tok"
    and dec: "decode_token ext st now_us tok = Inr payload"
    and sub: "dict_get payload ''sub'' = Some (JStr user_id)" "user_id \<noteq> []"
    and user: "ObjectId ext user_id = Some oid" "usuarios_by_id d oid = Some user"
  shows "me ext d st now_us (Some (''Bearer '' @ tok))
           = Inr [(''id'', JStr (oid_str (doc_id user))),
                  (''display_name'', user_get user ''nome''),
                  (''departamento'', user_get user ''departamento''),
                  (''avatar_url'', user_get user ''avatar_url''),
                  (''descricao_html'', dict_get_or (doc_fields user) ''descricao_html'' (JStr []))]
         \<and> (dict_get payload ''type'' \<noteq> Some (JStr ''access'') \<longrightarrow>
               get_current_user_id ext st now_us tok = Inl unauthorized_bearer)"
proof -
  have "replace_bearer (CHR ''B'' # ''earer '' @ tok) = tok"
    using replace_bearer_header [OF tok] by simp
  then show ?thesis
    using dec sub user by (simp add: me_def get_current_user_id_def del: replace_bearer.simps)
qed

lemma demo_decode_major_later:
  "decode_token demo_ext default_settings 1762182060000000 ''h.major1.s''
     = Inr [(''sub'', JStr demo_sub), (''type'', JStr ''major''),
            (''exp'', JInt 1762207200), (''iat'', JInt 1762182000)]"
  by (simp add: decode_token_def jwt_decode_def validate_exp_def py_int_def validate_sub_def
        dict_get_def demo_defs)

theorem me_accepts_any_kind_witness:
  "CHR '' '' \<notin> set ''h.major1.s''
   \<and> token_claim demo_ext ''h.major1.s'' ''type'' = Some (JStr ''major'')
   \<and> me demo_ext demo_db default_settings 1762182060000000 (Some ''Bearer h.major1.s'')
       = Inr [(''id'', JStr demo_sub), (''display_name'', JStr ''Ana''),
              (''departamento'', JStr ''fiscal''), (''avatar_url'', JNull),
              (''descricao_html'', JStr [])]
   \<and> get_current_user_id demo_ext default_settings 1762182060000000 ''h.major1.s''
       = Inl unauthorized_bearer"
proof -
  let ?payload = "[(''sub'', JStr demo_sub), (''type'', JStr ''major''),
                   (''exp'', JInt 1762207200), (''iat'', JInt 1762182000)]"
  have t: "CHR '' '' \<notin> set ''h.major1.s''" by simp
  have s: "dict_get ?payload ''sub'' = Some (JStr demo_sub)" by (simp add: dict_get_def)
  have k: "dict_get ?payload ''type'' \<noteq> Some (JStr ''access'')" by (simp add: dict_get_def)
  from me_accepts_any_kind
         [OF t demo_decode_major_later s demo_sub_nonempty demo_ObjectId_sub demo_db_by_id] k
  show ?thesis
    using demo_claim_type_major
    by (simp add: demo_user_def user_get_def dict_get_or_def)
qed

end
